theory Spec2Isabelle
  imports Main "HOL-Library.Word"
begin

section \<open>The data availability server of das/local\_disk\_das.go\<close>

text \<open>
  The file implements the \<open>DAS\<close> aggregate: its construction from configuration
  (\<open>NewDAS\<close>, \<open>NewDASWithL1Info\<close>, \<open>NewDASWithSeqInboxCaller\<close>,
  \<open>NewStorageServiceFromStorageConfig\<close>) and its service operations (\<open>Store\<close>,
  \<open>GetByHash\<close>, \<open>KeysetFromHash\<close>, \<open>CurrentKeysetBytes\<close>, \<open>HealthCheck\<close>).
  Everything the file calls in other packages (hashing, BLS signatures, the keyset and
  certificate serialisers, key files, the storage backends, the L1 client) is a
  parameter of the model: a field of one of the records of functions below. Every
  theorem holds for all values of these parameters unless it states a hypothesis on
  them.
\<close>

subsection \<open>Basic types\<close>

type_synonym byte = "8 word"
type_synonym bytes = "byte list"
type_synonym uint64 = "64 word"

text \<open>\<open>common.Address\<close> is a 20-byte array.\<close>

type_synonym address = "160 word"

text \<open>
  Go \<open>error\<close> values. \<open>errorString s\<close> is \<open>errors.New(s)\<close> or a \<open>fmt.Errorf\<close> without
  \<open>%w\<close>; \<open>wrapError p e\<close> is \<open>fmt.Errorf(p + "%w", e)\<close>, which keeps the wrapped error;
  \<open>NotExist p\<close> stands for the errors of the \<open>os\<close> package that report a missing file
  or directory; \<open>External s\<close> is any other error of a collaborator.
\<close>

datatype error =
    errorString string
  | wrapError string error
  | NotExist string
  | External string

text \<open>
  \<open>os.IsNotExist\<close> recognises the errors of the \<open>os\<close> package only: it does not look
  inside an error wrapped by \<open>fmt.Errorf\<close>.
\<close>

fun IsNotExist :: "error \<Rightarrow> bool" where
  "IsNotExist (NotExist p) = True"
| "IsNotExist e = False"

definition ErrDasKeysetNotFound :: error where
  "ErrDasKeysetNotFound = errorString ''no such keyset''"

text \<open>
  The built-in \<open>copy(dst, src)\<close> on byte slices: it overwrites the first
  \<open>min (len dst) (len src)\<close> bytes of \<open>dst\<close> and leaves the length of \<open>dst\<close> as it is.
\<close>

definition copy :: "bytes \<Rightarrow> bytes \<Rightarrow> bytes" where
  "copy dst src = take (length dst) src @ drop (length src) dst"

text \<open>The zero value of a \<open>[32]byte\<close> array.\<close>

definition zero32 :: bytes where
  "zero32 = replicate 32 0"

text \<open>The conversion \<open>[]byte(s)\<close> of a string.\<close>

definition bytes_of_string :: "string \<Rightarrow> bytes" where
  "bytes_of_string s = map of_char s"

subsection \<open>Configuration\<close>

record LocalConfig =
  DataDir :: string

text \<open>
  \<open>genericconf.S3Config\<close>, \<open>RedisConfig\<close> and \<open>BigCacheConfig\<close> are declared in other
  files; the code only passes them on, so they are the type parameters \<open>'s3\<close>, \<open>'redis\<close>
  and \<open>'big\<close>.
\<close>

record ('s3, 'redis, 'big) StorageConfig =
  KeyDir :: string
  PrivKey :: string
  LocalConfig :: LocalConfig
  DiscardAfterTimeout :: bool
  S3Config :: 's3
  RedisConfig :: 'redis
  BigCacheConfig :: 'big
  AllowGenerateKeys :: bool
  StorageType :: string

text \<open>The fields of \<open>DataAvailabilityConfig\<close> that \<open>NewDAS\<close> reads.\<close>

record ('s3, 'redis, 'big) DataAvailabilityConfig =
  DASConfig :: "('s3, 'redis, 'big) StorageConfig"
  L1NodeURL :: string
  SequencerInboxAddress :: string

subsection \<open>Certificates and keysets\<close>

text \<open>
  \<open>arbstate.DataAvailabilityCertificate\<close>. \<open>KeysetHash\<close> and \<open>DataHash\<close> are
  \<open>[32]byte\<close> arrays; \<open>Sig\<close> is \<open>None\<close> in the zero value \<open>Store\<close> starts from.
\<close>

record 'sig DataAvailabilityCertificate =
  KeysetHash :: bytes
  DataHash :: bytes
  Timeout :: uint64
  SignersMask :: uint64
  Sig :: "'sig option"

record 'pub DataAvailabilityKeyset =
  AssumedHonest :: uint64
  PubKeys :: "'pub list"

subsection \<open>Collaborators\<close>

text \<open>
  The \<open>StorageService\<close> interface, as far as this file calls it. The backend's state
  has type \<open>'s\<close>; every method receives the context and the state and returns the
  state it leaves behind. A method that returns only an \<open>error\<close> returns
  \<open>None\<close> for \<open>nil\<close>.
\<close>

record ('ctx, 's) StorageService =
  ss_GetByHash :: "'ctx \<Rightarrow> bytes \<Rightarrow> 's \<Rightarrow> (error + bytes) \<times> 's"
  ss_Put :: "'ctx \<Rightarrow> bytes \<Rightarrow> uint64 \<Rightarrow> 's \<Rightarrow> error option \<times> 's"
  ss_Sync :: "'ctx \<Rightarrow> 's \<Rightarrow> error option \<times> 's"
  ss_HealthCheck :: "'ctx \<Rightarrow> 's \<Rightarrow> error option \<times> 's"

text \<open>
  \<open>BatchPosterVerifier\<close>: one read-only call against the sequencer inbox contract.
  It holds no reference to the storage backend.
\<close>

record 'ctx BatchPosterVerifier =
  IsBatchPoster :: "'ctx \<Rightarrow> address \<Rightarrow> error + bool"

text \<open>
  The functions of other packages that \<open>Store\<close> and the constructor call:
  \<open>crypto.Keccak256\<close>, \<open>DasRecoverSigner\<close>, the certificate's
  \<open>SerializeSignableFields\<close>, \<open>blsSignatures.SignMessage\<close> and
  \<open>blsSignatures.PublicKeyFromPrivateKey\<close>, and the keyset's \<open>Serialize\<close> (the bytes
  it writes to the buffer) and \<open>Hash\<close>.
\<close>

record ('priv, 'pub, 'sig) Library =
  Keccak256 :: "bytes \<Rightarrow> bytes"
  DasRecoverSigner :: "bytes \<Rightarrow> uint64 \<Rightarrow> bytes \<Rightarrow> error + address"
  SerializeSignableFields :: "'sig DataAvailabilityCertificate \<Rightarrow> bytes"
  SignMessage :: "'priv \<Rightarrow> bytes \<Rightarrow> error + 'sig"
  PublicKeyFromPrivateKey :: "'priv \<Rightarrow> error + 'pub"
  Serialize :: "'pub DataAvailabilityKeyset \<Rightarrow> error + bytes"
  Hash :: "'pub DataAvailabilityKeyset \<Rightarrow> error + bytes"

text \<open>
  The constructors of the storage backends, defined in sibling files. Only
  \<open>NewLocalDiskStorageService\<close> cannot fail.
\<close>

record ('s3, 'redis, 'big, 'ctx, 's) Backends =
  NewLocalDiskStorageService :: "string \<Rightarrow> ('ctx, 's) StorageService"
  NewDBStorageService :: "'ctx \<Rightarrow> string \<Rightarrow> bool \<Rightarrow> error + ('ctx, 's) StorageService"
  NewS3StorageService :: "'s3 \<Rightarrow> bool \<Rightarrow> error + ('ctx, 's) StorageService"
  NewRedisStorageService ::
    "'redis \<Rightarrow> ('ctx, 's) StorageService \<Rightarrow> error + ('ctx, 's) StorageService"
  NewBigCacheStorageService ::
    "'big \<Rightarrow> ('ctx, 's) StorageService \<Rightarrow> error + ('ctx, 's) StorageService"

text \<open>
  The key helpers. \<open>ReadKeysFromFile\<close> reads the file system (of type \<open>'fs\<close>) and
  \<open>GenerateAndStoreKeys\<close> writes it; both return the public and the private key.
\<close>

record ('fs, 'priv, 'pub) KeyFiles =
  DecodeBase64BLSPrivateKey :: "bytes \<Rightarrow> error + 'priv"
  ReadKeysFromFile :: "string \<Rightarrow> 'fs \<Rightarrow> error + ('pub \<times> 'priv)"
  GenerateAndStoreKeys :: "string \<Rightarrow> 'fs \<Rightarrow> (error + ('pub \<times> 'priv)) \<times> 'fs"

text \<open>
  The L1 side: \<open>ethclient.Dial\<close>, \<open>OptionalAddressFromString\<close> (which returns a
  pointer, \<open>None\<close> for \<open>nil\<close>), \<open>bridgegen.NewSequencerInboxCaller\<close> and
  \<open>NewBatchPosterVerifier\<close>.
\<close>

record ('ctx, 'l1, 'caller) L1 =
  Dial :: "string \<Rightarrow> error + 'l1"
  OptionalAddressFromString :: "string \<Rightarrow> error + address option"
  NewSequencerInboxCaller :: "address \<Rightarrow> 'l1 \<Rightarrow> error + 'caller"
  NewBatchPosterVerifier :: "'caller \<Rightarrow> 'ctx BatchPosterVerifier"

subsection \<open>The DAS\<close>

record ('s3, 'redis, 'big, 'priv, 'ctx, 's) DAS =
  config :: "('s3, 'redis, 'big) StorageConfig"
  privKey :: 'priv
  keysetHash :: bytes
  keysetBytes :: bytes
  storageService :: "('ctx, 's) StorageService"
  bpVerifier :: "'ctx BatchPosterVerifier option"

subsection \<open>Construction\<close>

text \<open>
  \<open>NewDASWithSeqInboxCaller\<close>: first the private key (the \<open>if\<close> of lines 137 to
  158, whose result is the key or the error returned, and the file system it leaves),
  then the keyset and the struct.
\<close>

definition NewDASWithSeqInboxCaller ::
  "('fs, 'priv, 'pub) KeyFiles \<Rightarrow> ('priv, 'pub, 'sig) Library \<Rightarrow> ('ctx, 'l1, 'caller) L1 \<Rightarrow>
   'ctx \<Rightarrow> ('s3, 'redis, 'big) StorageConfig \<Rightarrow> 'caller option \<Rightarrow>
   ('ctx, 's) StorageService \<Rightarrow> 'fs \<Rightarrow>
   (error + ('s3, 'redis, 'big, 'priv, 'ctx, 's) DAS) \<times> 'fs" where
  "NewDASWithSeqInboxCaller K L V ctx cfg seqInboxCaller svc fs =
    (case (if length (PrivKey cfg) \<noteq> 0
           then (case DecodeBase64BLSPrivateKey K (bytes_of_string (PrivKey cfg)) of
                   Inl err \<Rightarrow> (Inl (wrapError '''priv-key' was invalid: '' err), fs)
                 | Inr key \<Rightarrow> (Inr key, fs))
           else (case ReadKeysFromFile K (KeyDir cfg) fs of
                   Inl err \<Rightarrow>
                     if IsNotExist err
                     then if AllowGenerateKeys cfg
                          then (case GenerateAndStoreKeys K (KeyDir cfg) fs of
                                  (Inl err, fs1) \<Rightarrow> (Inl err, fs1)
                                | (Inr (pub, key), fs1) \<Rightarrow> (Inr key, fs1))
                          else (Inl (errorString
                                  (''Required BLS keypair did not exist at '' @ KeyDir cfg)),
                                fs)
                     else (Inl err, fs)
                 | Inr (pub, key) \<Rightarrow> (Inr key, fs))) of
       (Inl err, fs1) \<Rightarrow> (Inl err, fs1)
     | (Inr key, fs1) \<Rightarrow>
        (case PublicKeyFromPrivateKey L key of
           Inl err \<Rightarrow> (Inl err, fs1)
         | Inr publicKey \<Rightarrow>
            (let keyset = \<lparr>AssumedHonest = 1, PubKeys = [publicKey]\<rparr>
             in case Serialize L keyset of
                  Inl err \<Rightarrow> (Inl err, fs1)
                | Inr ksBuf \<Rightarrow>
                   (case Hash L keyset of
                      Inl err \<Rightarrow> (Inl err, fs1)
                    | Inr ksHashBuf \<Rightarrow>
                       (let ksHash = copy zero32 ksHashBuf;
                            bpv =
                              (case seqInboxCaller of
                                 None \<Rightarrow> None
                               | Some caller \<Rightarrow> Some (NewBatchPosterVerifier V caller))
                        in (Inr \<lparr>config = cfg, privKey = key, keysetHash = ksHash,
                                 keysetBytes = ksBuf, storageService = svc,
                                 bpVerifier = bpv\<rparr>, fs1))))))"

definition NewDASWithL1Info ::
  "('fs, 'priv, 'pub) KeyFiles \<Rightarrow> ('priv, 'pub, 'sig) Library \<Rightarrow> ('ctx, 'l1, 'caller) L1 \<Rightarrow>
   'ctx \<Rightarrow> ('s3, 'redis, 'big) StorageConfig \<Rightarrow> 'l1 \<Rightarrow> address \<Rightarrow>
   ('ctx, 's) StorageService \<Rightarrow> 'fs \<Rightarrow>
   (error + ('s3, 'redis, 'big, 'priv, 'ctx, 's) DAS) \<times> 'fs" where
  "NewDASWithL1Info K L V ctx cfg l1client seqInboxAddress svc fs =
    (case NewSequencerInboxCaller V seqInboxAddress l1client of
       Inl err \<Rightarrow> (Inl err, fs)
     | Inr seqInboxCaller \<Rightarrow>
         NewDASWithSeqInboxCaller K L V ctx cfg (Some seqInboxCaller) svc fs)"

text \<open>
  \<open>NewStorageServiceFromStorageConfig\<close>. In the \<open>"db"\<close> case the source also starts a
  goroutine that closes the service when the context is done; it runs after
  construction and is not part of the value returned.
\<close>

definition NewStorageServiceFromStorageConfig ::
  "('s3, 'redis, 'big, 'ctx, 's) Backends \<Rightarrow> 'ctx \<Rightarrow> ('s3, 'redis, 'big) StorageConfig \<Rightarrow>
   error + ('ctx, 's) StorageService" where
  "NewStorageServiceFromStorageConfig B ctx cfg =
    (if StorageType cfg = '''' \<or> StorageType cfg = ''files''
     then Inr (NewLocalDiskStorageService B (DataDir (LocalConfig cfg)))
     else if StorageType cfg = ''db''
     then (case NewDBStorageService B ctx (DataDir (LocalConfig cfg))
                  (DiscardAfterTimeout cfg) of
             Inl err \<Rightarrow> Inl err
           | Inr svc \<Rightarrow> Inr svc)
     else if StorageType cfg = ''s3''
     then (case NewS3StorageService B (S3Config cfg) (DiscardAfterTimeout cfg) of
             Inl err \<Rightarrow> Inl err
           | Inr svc \<Rightarrow> Inr svc)
     else if StorageType cfg = ''redis''
     then (case NewS3StorageService B (S3Config cfg) (DiscardAfterTimeout cfg) of
             Inl err \<Rightarrow> Inl err
           | Inr s3svc \<Rightarrow>
              (case NewRedisStorageService B (RedisConfig cfg) s3svc of
                 Inl err \<Rightarrow> Inl err
               | Inr svc \<Rightarrow> Inr svc))
     else if StorageType cfg = ''bigCache''
     then (case NewS3StorageService B (S3Config cfg) (DiscardAfterTimeout cfg) of
             Inl err \<Rightarrow> Inl err
           | Inr s3svc \<Rightarrow>
              (case NewRedisStorageService B (RedisConfig cfg) s3svc of
                 Inl err \<Rightarrow> Inl err
               | Inr redissvc \<Rightarrow>
                  (case NewBigCacheStorageService B (BigCacheConfig cfg) redissvc of
                     Inl err \<Rightarrow> Inl err
                   | Inr svc \<Rightarrow> Inr svc)))
     else Inl (errorString (''Storage service type not recognized: '' @ StorageType cfg)))"

definition NewDAS ::
  "('s3, 'redis, 'big, 'ctx, 's) Backends \<Rightarrow> ('fs, 'priv, 'pub) KeyFiles \<Rightarrow>
   ('priv, 'pub, 'sig) Library \<Rightarrow> ('ctx, 'l1, 'caller) L1 \<Rightarrow>
   'ctx \<Rightarrow> ('s3, 'redis, 'big) DataAvailabilityConfig \<Rightarrow> 'fs \<Rightarrow>
   (error + ('s3, 'redis, 'big, 'priv, 'ctx, 's) DAS) \<times> 'fs" where
  "NewDAS B K L V ctx cfg fs =
    (case NewStorageServiceFromStorageConfig B ctx (DASConfig cfg) of
       Inl err \<Rightarrow> (Inl err, fs)
     | Inr svc \<Rightarrow>
        if L1NodeURL cfg = ''none''
        then NewDASWithSeqInboxCaller K L V ctx (DASConfig cfg) None svc fs
        else (case Dial V (L1NodeURL cfg) of
                Inl err \<Rightarrow> (Inl err, fs)
              | Inr l1client \<Rightarrow>
                 (case OptionalAddressFromString V (SequencerInboxAddress cfg) of
                    Inl err \<Rightarrow> (Inl err, fs)
                  | Inr None \<Rightarrow>
                      NewDASWithSeqInboxCaller K L V ctx (DASConfig cfg) None svc fs
                  | Inr (Some seqInboxAddress) \<Rightarrow>
                      NewDASWithL1Info K L V ctx (DASConfig cfg) l1client seqInboxAddress
                        svc fs)))"

subsection \<open>The service operations\<close>

text \<open>
  The methods have the pointer receiver \<open>d *DAS\<close>. The state they run in is the
  struct \<open>d\<close> points to and the state of the storage backend behind
  \<open>d.storageService\<close>; each method returns its result and the state it leaves.
\<close>

record ('s3, 'redis, 'big, 'priv, 'ctx, 's) node =
  das :: "('s3, 'redis, 'big, 'priv, 'ctx, 's) DAS"
  backend :: 's

text \<open>
  \<open>Store\<close>. The inner \<open>case\<close> is the block of lines 244 to 256: its value is the
  error the block returns, or \<open>None\<close> when control reaches line 258. The certificate
  \<open>c\<close> starts as the zero value and is assigned field by field, in the order of the
  source; \<open>KeysetHash\<close> is assigned last, after \<open>Put\<close> and \<open>Sync\<close>.
\<close>

definition Store ::
  "('priv, 'pub, 'sig) Library \<Rightarrow> 'ctx \<Rightarrow> bytes \<Rightarrow> uint64 \<Rightarrow> bytes \<Rightarrow>
   ('s3, 'redis, 'big, 'priv, 'ctx, 's) node \<Rightarrow>
   (error + 'sig DataAvailabilityCertificate) \<times> ('s3, 'redis, 'big, 'priv, 'ctx, 's) node" where
  "Store L ctx message timeout sig st =
    (let d = das st in
     case (case bpVerifier d of
             None \<Rightarrow> None
           | Some v \<Rightarrow>
               (case DasRecoverSigner L message timeout sig of
                  Inl err \<Rightarrow> Some err
                | Inr actualSigner \<Rightarrow>
                    (case IsBatchPoster v ctx actualSigner of
                       Inl err \<Rightarrow> Some err
                     | Inr isBatchPoster \<Rightarrow>
                         if \<not> isBatchPoster
                         then Some (errorString ''store request not properly signed'')
                         else None))) of
       Some err \<Rightarrow> (Inl err, st)
     | None \<Rightarrow>
        (let c = \<lparr>KeysetHash = zero32, DataHash = zero32, Timeout = 0, SignersMask = 0,
                  Sig = None\<rparr>;
             c = c\<lparr>DataHash := copy (DataHash c) (Keccak256 L message)\<rparr>;
             c = c\<lparr>Timeout := timeout\<rparr>;
             c = c\<lparr>SignersMask := 1\<rparr>;
             fields = SerializeSignableFields L c
         in case SignMessage L (privKey d) fields of
              Inl err \<Rightarrow> (Inl err, st)
            | Inr sg \<Rightarrow>
               (let c = c\<lparr>Sig := Some sg\<rparr>
                in case ss_Put (storageService d) ctx message timeout (backend st) of
                     (Some err, s1) \<Rightarrow> (Inl err, st\<lparr>backend := s1\<rparr>)
                   | (None, s1) \<Rightarrow>
                      (case ss_Sync (storageService d) ctx s1 of
                         (Some err, s2) \<Rightarrow> (Inl err, st\<lparr>backend := s2\<rparr>)
                       | (None, s2) \<Rightarrow>
                           (Inr (c\<lparr>KeysetHash := keysetHash d\<rparr>), st\<lparr>backend := s2\<rparr>)))))"

definition GetByHash ::
  "'ctx \<Rightarrow> bytes \<Rightarrow> ('s3, 'redis, 'big, 'priv, 'ctx, 's) node \<Rightarrow>
   (error + bytes) \<times> ('s3, 'redis, 'big, 'priv, 'ctx, 's) node" where
  "GetByHash ctx hash st =
    (case ss_GetByHash (storageService (das st)) ctx hash (backend st) of
       (r, s1) \<Rightarrow> (r, st\<lparr>backend := s1\<rparr>))"

definition KeysetFromHash ::
  "'ctx \<Rightarrow> bytes \<Rightarrow> ('s3, 'redis, 'big, 'priv, 'ctx, 's) node \<Rightarrow>
   (error + bytes) \<times> ('s3, 'redis, 'big, 'priv, 'ctx, 's) node" where
  "KeysetFromHash ctx ksHash st =
    (if ksHash = keysetHash (das st) then (Inr (keysetBytes (das st)), st)
     else case GetByHash ctx ksHash st of
            (Inr contents, st1) \<Rightarrow> (Inr contents, st1)
          | (Inl err, st1) \<Rightarrow> (Inl ErrDasKeysetNotFound, st1))"

definition CurrentKeysetBytes ::
  "'ctx \<Rightarrow> ('s3, 'redis, 'big, 'priv, 'ctx, 's) node \<Rightarrow>
   (error + bytes) \<times> ('s3, 'redis, 'big, 'priv, 'ctx, 's) node" where
  "CurrentKeysetBytes ctx st = (Inr (keysetBytes (das st)), st)"

definition HealthCheck ::
  "'ctx \<Rightarrow> ('s3, 'redis, 'big, 'priv, 'ctx, 's) node \<Rightarrow>
   error option \<times> ('s3, 'redis, 'big, 'priv, 'ctx, 's) node" where
  "HealthCheck ctx st =
    (case ss_HealthCheck (storageService (das st)) ctx (backend st) of
       (r, s1) \<Rightarrow> (r, st\<lparr>backend := s1\<rparr>))"

subsection \<open>Sequences of calls\<close>

text \<open>
  The lifetime of the process after construction: callers issue requests, one after
  the other, against the same \<open>DAS\<close>. \<open>serve\<close> runs one request and returns the
  certificate it issued, if any; \<open>serve_all\<close> runs a list of requests and collects the
  certificates.
\<close>

datatype 'ctx request =
    StoreRequest 'ctx bytes uint64 bytes
  | GetByHashRequest 'ctx bytes
  | KeysetFromHashRequest 'ctx bytes
  | CurrentKeysetBytesRequest 'ctx
  | HealthCheckRequest 'ctx

fun serve ::
  "('priv, 'pub, 'sig) Library \<Rightarrow> 'ctx request \<Rightarrow> ('s3, 'redis, 'big, 'priv, 'ctx, 's) node \<Rightarrow>
   'sig DataAvailabilityCertificate list \<times> ('s3, 'redis, 'big, 'priv, 'ctx, 's) node" where
  "serve L (StoreRequest ctx message timeout sig) st =
     (case Store L ctx message timeout sig st of
        (Inl err, st1) \<Rightarrow> ([], st1)
      | (Inr c, st1) \<Rightarrow> ([c], st1))"
| "serve L (GetByHashRequest ctx hash) st = ([], snd (GetByHash ctx hash st))"
| "serve L (KeysetFromHashRequest ctx ksHash) st = ([], snd (KeysetFromHash ctx ksHash st))"
| "serve L (CurrentKeysetBytesRequest ctx) st = ([], snd (CurrentKeysetBytes ctx st))"
| "serve L (HealthCheckRequest ctx) st = ([], snd (HealthCheck ctx st))"

fun serve_all ::
  "('priv, 'pub, 'sig) Library \<Rightarrow> 'ctx request list \<Rightarrow> ('s3, 'redis, 'big, 'priv, 'ctx, 's) node \<Rightarrow>
   'sig DataAvailabilityCertificate list \<times> ('s3, 'redis, 'big, 'priv, 'ctx, 's) node" where
  "serve_all L [] st = ([], st)"
| "serve_all L (r # rs) st =
     (case serve L r st of
        (cs, st1) \<Rightarrow> (case serve_all L rs st1 of (cs', st2) \<Rightarrow> (cs @ cs', st2)))"

subsection \<open>Predicates used in the statements\<close>

text \<open>
  \<open>authorized\<close> holds when the first block of \<open>Store\<close> (lines 244 to 256) falls
  through: there is no verifier, or the signer is recovered and the verifier reports it
  as a batch poster.
\<close>

definition authorized ::
  "('priv, 'pub, 'sig) Library \<Rightarrow> 'ctx \<Rightarrow> bytes \<Rightarrow> uint64 \<Rightarrow> bytes \<Rightarrow>
   ('s3, 'redis, 'big, 'priv, 'ctx, 's) DAS \<Rightarrow> bool" where
  "authorized L ctx message timeout sig d =
    (case bpVerifier d of
       None \<Rightarrow> True
     | Some v \<Rightarrow>
        (case DasRecoverSigner L message timeout sig of
           Inl err \<Rightarrow> False
         | Inr actualSigner \<Rightarrow> IsBatchPoster v ctx actualSigner = Inr True))"

text \<open>
  \<open>signable h t m\<close> is the certificate that carries the three fields \<open>DataHash\<close>,
  \<open>Timeout\<close> and \<open>SignersMask\<close> and the zero value everywhere else; \<open>payload\<close> is
  the byte string \<open>Store\<close> passes to \<open>SignMessage\<close> (line 264).
\<close>

definition signable :: "bytes \<Rightarrow> uint64 \<Rightarrow> uint64 \<Rightarrow> 'sig DataAvailabilityCertificate" where
  "signable h t m = \<lparr>KeysetHash = zero32, DataHash = h, Timeout = t, SignersMask = m, Sig = None\<rparr>"

definition payload :: "('priv, 'pub, 'sig) Library \<Rightarrow> bytes \<Rightarrow> uint64 \<Rightarrow> bytes" where
  "payload L message timeout =
     SerializeSignableFields L (signable (copy zero32 (Keccak256 L message)) timeout 1)"


text \<open>
  \<open>keyset_of_key\<close> is what \<open>NewDASWithSeqInboxCaller\<close> does with the private key once
  it has one (lines 160 to 193): it derives the public key, serialises and hashes the
  one-member keyset, and returns the struct that holds the key, or the first error.
\<close>

definition keyset_of_key ::
  "('priv, 'pub, 'sig) Library \<Rightarrow> ('ctx, 'l1, 'caller) L1 \<Rightarrow>
   ('s3, 'redis, 'big) StorageConfig \<Rightarrow> 'caller option \<Rightarrow> ('ctx, 's) StorageService \<Rightarrow>
   'priv \<Rightarrow> error + ('s3, 'redis, 'big, 'priv, 'ctx, 's) DAS" where
  "keyset_of_key L V cfg caller svc k =
    (case PublicKeyFromPrivateKey L k of
       Inl err \<Rightarrow> Inl err
     | Inr pk \<Rightarrow>
        (case Serialize L \<lparr>AssumedHonest = 1, PubKeys = [pk]\<rparr> of
           Inl err \<Rightarrow> Inl err
         | Inr ks \<Rightarrow>
            (case Hash L \<lparr>AssumedHonest = 1, PubKeys = [pk]\<rparr> of
               Inl err \<Rightarrow> Inl err
             | Inr h \<Rightarrow>
                 Inr \<lparr>config = cfg, privKey = k, keysetHash = copy zero32 h, keysetBytes = ks,
                      storageService = svc,
                      bpVerifier = map_option (NewBatchPosterVerifier V) caller\<rparr>)))"

subsection \<open>Test doubles\<close>

text \<open>
  Concrete collaborators for the instances below: a storage backend whose state is the
  list of the calls it has received, with the results of its methods fixed in advance;
  small stand-ins for the library functions, the key files (a file system that maps a
  directory to the private key stored there), the L1 side and the backend constructors;
  and a verifier that knows the signers 1 (a batch poster) and 2 (not one).
\<close>

datatype call = PutCall bytes uint64 | SyncCall | GetByHashCall bytes | HealthCheckCall

definition recording ::
  "error option \<Rightarrow> error option \<Rightarrow> error + bytes \<Rightarrow> (unit, call list) StorageService" where
  "recording put_result sync_result get_result =
    \<lparr>ss_GetByHash = (\<lambda>ctx h s. (get_result, s @ [GetByHashCall h])),
     ss_Put = (\<lambda>ctx m t s. (put_result, s @ [PutCall m t])),
     ss_Sync = (\<lambda>ctx s. (sync_result, s @ [SyncCall])),
     ss_HealthCheck = (\<lambda>ctx s. (None, s @ [HealthCheckCall]))\<rparr>"

definition toy :: "(nat, nat, nat \<times> bytes) Library" where
  "toy =
    \<lparr>Keccak256 = (\<lambda>m. replicate 31 0 @ [of_nat (length m)]),
     DasRecoverSigner =
       (\<lambda>m t s. if s = [] then Inl (External ''invalid signature'')
                else Inr (of_nat (length s))),
     SerializeSignableFields = (\<lambda>c. DataHash c @ [ucast (Timeout c), ucast (SignersMask c)]),
     SignMessage = (\<lambda>k m. if k = 0 then Inl (External ''invalid key'') else Inr (k, m)),
     PublicKeyFromPrivateKey = (\<lambda>k. Inr (Suc k)),
     Serialize = (\<lambda>ks. Inr (map of_nat (PubKeys ks))),
     Hash = (\<lambda>ks. Inr (map of_nat (PubKeys ks)))\<rparr>"

definition registry :: "unit BatchPosterVerifier" where
  "registry =
    \<lparr>IsBatchPoster =
       (\<lambda>ctx a. if a = 1 then Inr True else if a = 2 then Inr False
                else Inl (External ''call failed''))\<rparr>"

definition toy_config :: "(unit, unit, unit) StorageConfig" where
  "toy_config =
    \<lparr>KeyDir = ''keys'', PrivKey = [], LocalConfig = \<lparr>DataDir = ''data''\<rparr>,
     DiscardAfterTimeout = False, S3Config = (), RedisConfig = (), BigCacheConfig = (),
     AllowGenerateKeys = True, StorageType = ''files''\<rparr>"

definition toy_node ::
  "(unit, call list) StorageService \<Rightarrow> unit BatchPosterVerifier option \<Rightarrow>
   (unit, unit, unit, nat, unit, call list) node" where
  "toy_node svc bpv =
    \<lparr>das = \<lparr>config = toy_config, privKey = 5, keysetHash = copy zero32 [6],
             keysetBytes = [6], storageService = svc, bpVerifier = bpv\<rparr>,
     backend = []\<rparr>"

definition toy_keys :: "((string \<times> nat) list, nat, nat) KeyFiles" where
  "toy_keys =
    \<lparr>DecodeBase64BLSPrivateKey =
       (\<lambda>bs. if length bs = 1 then Inr (unat (hd bs)) else Inl (External ''illegal base64 data'')),
     ReadKeysFromFile =
       (\<lambda>dir fs. if dir = ''locked'' then Inl (External ''permission denied'')
                 else case map_of fs dir of
                        None \<Rightarrow> Inl (NotExist dir)
                      | Some k \<Rightarrow> Inr (Suc k, k)),
     GenerateAndStoreKeys =
       (\<lambda>dir fs. if dir = [] then (Inl (External ''no directory''), fs)
                 else (Inr (Suc 5, 5), (dir, 5) # fs))\<rparr>"

definition toy_l1 :: "(unit, unit, unit) L1" where
  "toy_l1 =
    \<lparr>Dial = (\<lambda>url. Inr ()),
     OptionalAddressFromString = (\<lambda>s. if s = [] then Inr None else Inr (Some 1)),
     NewSequencerInboxCaller = (\<lambda>a l. Inr ()),
     NewBatchPosterVerifier = (\<lambda>c. registry)\<rparr>"

definition toy_backends :: "(unit, unit, unit, unit, call list) Backends" where
  "toy_backends =
    \<lparr>NewLocalDiskStorageService = (\<lambda>dir. recording None None (Inr [1])),
     NewDBStorageService = (\<lambda>ctx dir discard. Inr (recording None None (Inr [2]))),
     NewS3StorageService = (\<lambda>c discard. Inr (recording None None (Inr [3]))),
     NewRedisStorageService = (\<lambda>c inner. Inr (inner\<lparr>ss_Sync := (\<lambda>ctx s. (None, s))\<rparr>)),
     NewBigCacheStorageService =
       (\<lambda>c inner. Inr (inner\<lparr>ss_HealthCheck := (\<lambda>ctx s. (None, s))\<rparr>))\<rparr>"


section \<open>Properties\<close>

subsection \<open>Auxiliary facts\<close>

lemma length_zero32 [simp]: "length zero32 = 32"
  by (simp add: zero32_def)

lemma copy_zero32_full [simp]: "length h = 32 \<Longrightarrow> copy zero32 h = h"
  by (simp add: copy_def)

lemma length_copy [simp]: "length (copy dst src) = length dst"
  by (simp add: copy_def min_def)

lemma Store_unauthorized_eq:
  "\<not> authorized L ctx message timeout sig (das st) \<Longrightarrow>
   \<exists>e. Store L ctx message timeout sig st = (Inl e, st)"
  by (auto simp: Store_def authorized_def Let_def split: option.splits sum.splits)

lemma Store_authorized_eq:
  "authorized L ctx message timeout sig (das st) \<Longrightarrow>
   Store L ctx message timeout sig st =
     (case SignMessage L (privKey (das st)) (payload L message timeout) of
        Inl err \<Rightarrow> (Inl err, st)
      | Inr sg \<Rightarrow>
         (case ss_Put (storageService (das st)) ctx message timeout (backend st) of
            (Some err, s1) \<Rightarrow> (Inl err, st\<lparr>backend := s1\<rparr>)
          | (None, s1) \<Rightarrow>
             (case ss_Sync (storageService (das st)) ctx s1 of
                (Some err, s2) \<Rightarrow> (Inl err, st\<lparr>backend := s2\<rparr>)
              | (None, s2) \<Rightarrow>
                 (Inr \<lparr>KeysetHash = keysetHash (das st),
                       DataHash = copy zero32 (Keccak256 L message),
                       Timeout = timeout, SignersMask = 1, Sig = Some sg\<rparr>,
                  st\<lparr>backend := s2\<rparr>))))"
  by (auto simp: Store_def authorized_def payload_def signable_def Let_def
           split: option.splits sum.splits prod.splits)

lemma NewDASWithSeqInboxCaller_Inr:
  assumes "NewDASWithSeqInboxCaller K L V ctx cfg seqInboxCaller svc fs = (Inr d, fs')"
  shows "\<exists>pk ks h.
           PublicKeyFromPrivateKey L (privKey d) = Inr pk \<and>
           Serialize L \<lparr>AssumedHonest = 1, PubKeys = [pk]\<rparr> = Inr ks \<and>
           Hash L \<lparr>AssumedHonest = 1, PubKeys = [pk]\<rparr> = Inr h \<and>
           keysetBytes d = ks \<and> keysetHash d = copy zero32 h \<and>
           config d = cfg \<and> storageService d = svc \<and>
           bpVerifier d = map_option (NewBatchPosterVerifier V) seqInboxCaller"
  using assms
  by (auto simp: NewDASWithSeqInboxCaller_def Let_def
           split: if_splits sum.splits prod.splits option.splits)

lemma Store_das: "das (snd (Store L ctx message timeout sig st)) = das st"
  by (simp add: Store_def Let_def split: option.splits sum.splits prod.splits)

lemma GetByHash_das: "das (snd (GetByHash ctx hash st)) = das st"
  by (simp add: GetByHash_def split: prod.splits)

lemma KeysetFromHash_das: "das (snd (KeysetFromHash ctx ksHash st)) = das st"
  using GetByHash_das [of ctx ksHash st]
  by (auto simp: KeysetFromHash_def split: prod.splits sum.splits)

lemma CurrentKeysetBytes_das: "das (snd (CurrentKeysetBytes ctx st)) = das st"
  by (simp add: CurrentKeysetBytes_def)

lemma HealthCheck_das: "das (snd (HealthCheck ctx st)) = das st"
  by (simp add: HealthCheck_def split: prod.splits)

lemma Store_Inr_KeysetHash:
  assumes "Store L ctx message timeout sig st = (Inr c, st')"
  shows "KeysetHash c = keysetHash (das st)"
proof -
  have auth: "authorized L ctx message timeout sig (das st)"
  proof (rule ccontr)
    assume "\<not> authorized L ctx message timeout sig (das st)"
    from Store_unauthorized_eq [OF this] assms show False by auto
  qed
  from assms Store_authorized_eq [OF auth] show ?thesis
    by (auto split: sum.splits prod.splits option.splits)
qed

lemma serve_das: "das (snd (serve L r st)) = das st"
proof (cases r)
  case (StoreRequest ctx message timeout sig)
  with Store_das [of L ctx message timeout sig st] show ?thesis
    by (auto split: prod.splits sum.splits)
qed (simp_all add: GetByHash_das KeysetFromHash_das CurrentKeysetBytes_das HealthCheck_das)

lemma serve_KeysetHash:
  "c \<in> set (fst (serve L r st)) \<Longrightarrow> KeysetHash c = keysetHash (das st)"
  by (cases r) (auto split: prod.splits sum.splits dest: Store_Inr_KeysetHash)

lemma serve_all_das: "das (snd (serve_all L rs st)) = das st"
proof (induction rs arbitrary: st)
  case Nil
  show ?case by simp
next
  case (Cons r rs)
  from Cons.IH [of "snd (serve L r st)"] serve_das [of L r st]
  show ?case by (auto split: prod.splits)
qed

lemma serve_all_KeysetHash:
  "c \<in> set (fst (serve_all L rs st)) \<Longrightarrow> KeysetHash c = keysetHash (das st)"
proof (induction rs arbitrary: st)
  case Nil
  then show ?case by simp
next
  case (Cons r rs)
  obtain cs st1 where s: "serve L r st = (cs, st1)" by (cases "serve L r st")
  obtain cs' st2 where t: "serve_all L rs st1 = (cs', st2)" by (cases "serve_all L rs st1")
  from Cons.prems s t have "c \<in> set cs \<or> c \<in> set cs'" by auto
  then show ?case
  proof
    assume "c \<in> set cs"
    with s serve_KeysetHash [of c L r st] show ?thesis by simp
  next
    assume "c \<in> set cs'"
    with t Cons.IH [of st1] have "KeysetHash c = keysetHash (das st1)" by simp
    moreover from s serve_das [of L r st] have "das st1 = das st" by simp
    ultimately show ?thesis by simp
  qed
qed


subsection \<open>Store\<close>

text \<open>
  C1. A certificate is returned only if \<open>Put\<close> and then \<open>Sync\<close> have returned no
  error. When the request is authorised and signing succeeds (so that \<open>Put\<close> is
  called): if \<open>Put\<close> returns an error, \<open>Store\<close> returns that error and no
  certificate; if \<open>Put\<close> succeeds and \<open>Sync\<close> returns an error, \<open>Store\<close> returns that
  error and no certificate.
\<close>

theorem Store_backend_failure:
  "(\<forall>c st'. Store L ctx message timeout sig st = (Inr c, st') \<longrightarrow>
      (\<exists>s1. ss_Put (storageService (das st)) ctx message timeout (backend st) = (None, s1) \<and>
            ss_Sync (storageService (das st)) ctx s1 = (None, backend st'))) \<and>
   (authorized L ctx message timeout sig (das st) \<and>
    SignMessage L (privKey (das st)) (payload L message timeout) = Inr sg \<longrightarrow>
      (\<forall>e s1. ss_Put (storageService (das st)) ctx message timeout (backend st) = (Some e, s1) \<longrightarrow>
         Store L ctx message timeout sig st = (Inl e, st\<lparr>backend := s1\<rparr>)) \<and>
      (\<forall>e s1 s2. ss_Put (storageService (das st)) ctx message timeout (backend st) = (None, s1) \<and>
                ss_Sync (storageService (das st)) ctx s1 = (Some e, s2) \<longrightarrow>
         Store L ctx message timeout sig st = (Inl e, st\<lparr>backend := s2\<rparr>)))"
proof (intro conjI allI impI)
  fix c st'
  assume ok: "Store L ctx message timeout sig st = (Inr c, st')"
  have auth: "authorized L ctx message timeout sig (das st)"
  proof (rule ccontr)
    assume "\<not> authorized L ctx message timeout sig (das st)"
    from Store_unauthorized_eq [OF this] ok show False by auto
  qed
  from ok Store_authorized_eq [OF auth]
  show "\<exists>s1. ss_Put (storageService (das st)) ctx message timeout (backend st) = (None, s1) \<and>
             ss_Sync (storageService (das st)) ctx s1 = (None, backend st')"
    by (auto split: sum.splits prod.splits option.splits)
next
  fix e s1
  assume "authorized L ctx message timeout sig (das st) \<and>
          SignMessage L (privKey (das st)) (payload L message timeout) = Inr sg"
     and "ss_Put (storageService (das st)) ctx message timeout (backend st) = (Some e, s1)"
  then show "Store L ctx message timeout sig st = (Inl e, st\<lparr>backend := s1\<rparr>)"
    by (simp add: Store_authorized_eq)
next
  fix e s1 s2
  assume "authorized L ctx message timeout sig (das st) \<and>
          SignMessage L (privKey (das st)) (payload L message timeout) = Inr sg"
     and "ss_Put (storageService (das st)) ctx message timeout (backend st) = (None, s1) \<and>
          ss_Sync (storageService (das st)) ctx s1 = (Some e, s2)"
  then show "Store L ctx message timeout sig st = (Inl e, st\<lparr>backend := s2\<rparr>)"
    by (simp add: Store_authorized_eq)
qed

theorem Store_backend_failure_witness:
  "authorized toy () [1, 2] 7 [] (das (toy_node (recording None (Some (External ''flush failed'')) (Inr [])) None)) \<and>
   SignMessage toy 5 (payload toy [1, 2] 7) = Inr (5, payload toy [1, 2] 7) \<and>
   Store toy () [1, 2] 7 [] (toy_node (recording (Some (External ''disk full'')) None (Inr [])) None) =
     (Inl (External ''disk full''),
      (toy_node (recording (Some (External ''disk full'')) None (Inr [])) None)
        \<lparr>backend := [PutCall [1, 2] 7]\<rparr>) \<and>
   Store toy () [1, 2] 7 [] (toy_node (recording None (Some (External ''flush failed'')) (Inr [])) None) =
     (Inl (External ''flush failed''),
      (toy_node (recording None (Some (External ''flush failed'')) (Inr [])) None)
        \<lparr>backend := [PutCall [1, 2] 7, SyncCall]\<rparr>)"
  using Store_backend_failure [where L = toy and ctx = "()" and message = "[1, 2]" and timeout = 7
      and sig = "[]" and sg = "(5, payload toy [1, 2] 7)"
      and st = "toy_node (recording (Some (External ''disk full'')) None (Inr [])) None"]
    Store_backend_failure [where L = toy and ctx = "()" and message = "[1, 2]" and timeout = 7
      and sig = "[]" and sg = "(5, payload toy [1, 2] 7)"
      and st = "toy_node (recording None (Some (External ''flush failed'')) (Inr [])) None"]
  by (simp add: authorized_def toy_node_def recording_def toy_def)

text \<open>
  C2. With a batch-poster verifier configured, \<open>Store\<close> fails when the signer cannot be
  recovered, when \<open>IsBatchPoster\<close> returns an error, and when it reports that the
  signer is not a batch poster. It returns the error and no certificate, and the state
  it leaves is the state it started from, whatever the backend is: no method of the
  backend has run.
\<close>

theorem Store_rejects_unauthorized:
  "bpVerifier (das st) = Some v \<longrightarrow>
     (\<forall>e. DasRecoverSigner L message timeout sig = Inl e \<longrightarrow>
        Store L ctx message timeout sig st = (Inl e, st)) \<and>
     (\<forall>a e. DasRecoverSigner L message timeout sig = Inr a \<and> IsBatchPoster v ctx a = Inl e \<longrightarrow>
        Store L ctx message timeout sig st = (Inl e, st)) \<and>
     (\<forall>a. DasRecoverSigner L message timeout sig = Inr a \<and> IsBatchPoster v ctx a = Inr False \<longrightarrow>
        Store L ctx message timeout sig st =
          (Inl (errorString ''store request not properly signed''), st))"
  by (simp add: Store_def Let_def)

theorem Store_rejects_unauthorized_witness:
  "bpVerifier (das (toy_node (recording None None (Inr [])) (Some registry))) = Some registry \<and>
   DasRecoverSigner toy [1, 2] 7 [] = Inl (External ''invalid signature'') \<and>
   Store toy () [1, 2] 7 [] (toy_node (recording None None (Inr [])) (Some registry)) =
     (Inl (External ''invalid signature''), toy_node (recording None None (Inr [])) (Some registry)) \<and>
   DasRecoverSigner toy [1, 2] 7 [0, 0, 0] = Inr 3 \<and>
   IsBatchPoster registry () 3 = Inl (External ''call failed'') \<and>
   Store toy () [1, 2] 7 [0, 0, 0] (toy_node (recording None None (Inr [])) (Some registry)) =
     (Inl (External ''call failed''), toy_node (recording None None (Inr [])) (Some registry)) \<and>
   DasRecoverSigner toy [1, 2] 7 [0, 0] = Inr 2 \<and>
   IsBatchPoster registry () 2 = Inr False \<and>
   Store toy () [1, 2] 7 [0, 0] (toy_node (recording None None (Inr [])) (Some registry)) =
     (Inl (errorString ''store request not properly signed''),
      toy_node (recording None None (Inr [])) (Some registry)) \<and>
   backend (toy_node (recording None None (Inr [])) (Some registry)) = []"
  using Store_rejects_unauthorized [where L = toy and ctx = "()" and message = "[1, 2]"
      and timeout = 7 and sig = "[]" and v = registry
      and st = "toy_node (recording None None (Inr [])) (Some registry)"]
    Store_rejects_unauthorized [where L = toy and ctx = "()" and message = "[1, 2]"
      and timeout = 7 and sig = "[0, 0, 0]" and v = registry
      and st = "toy_node (recording None None (Inr [])) (Some registry)"]
    Store_rejects_unauthorized [where L = toy and ctx = "()" and message = "[1, 2]"
      and timeout = 7 and sig = "[0, 0]" and v = registry
      and st = "toy_node (recording None None (Inr [])) (Some registry)"]
  by (simp add: toy_node_def toy_def registry_def)

text \<open>
  C3. The certificate of a successful \<open>Store\<close> carries the content hash of the message
  (the 32 bytes \<open>Keccak256\<close> returns, copied into the array), the caller's timeout,
  the signers mask 1, and the keyset hash of the DAS, which for a DAS built by
  \<open>NewDASWithSeqInboxCaller\<close> is the hash of its one-member keyset.
\<close>

theorem Store_certificate_fields:
  "Store L ctx message timeout sig st = (Inr c, st') \<longrightarrow>
     DataHash c = copy zero32 (Keccak256 L message) \<and>
     (length (Keccak256 L message) = 32 \<longrightarrow> DataHash c = Keccak256 L message) \<and>
     Timeout c = timeout \<and> SignersMask c = 1 \<and> KeysetHash c = keysetHash (das st) \<and>
     (NewDASWithSeqInboxCaller K L V ctx0 cfg caller svc fs = (Inr (das st), fs') \<longrightarrow>
        (\<exists>pk h. PublicKeyFromPrivateKey L (privKey (das st)) = Inr pk \<and>
                Hash L \<lparr>AssumedHonest = 1, PubKeys = [pk]\<rparr> = Inr h \<and>
                KeysetHash c = copy zero32 h))"
proof
  assume ok: "Store L ctx message timeout sig st = (Inr c, st')"
  have auth: "authorized L ctx message timeout sig (das st)"
  proof (rule ccontr)
    assume "\<not> authorized L ctx message timeout sig (das st)"
    from Store_unauthorized_eq [OF this] ok show False by auto
  qed
  from ok Store_authorized_eq [OF auth]
  have c: "DataHash c = copy zero32 (Keccak256 L message) \<and> Timeout c = timeout \<and>
           SignersMask c = 1 \<and> KeysetHash c = keysetHash (das st)"
    by (auto split: sum.splits prod.splits option.splits)
  have built: "\<exists>pk h. PublicKeyFromPrivateKey L (privKey (das st)) = Inr pk \<and>
                Hash L \<lparr>AssumedHonest = 1, PubKeys = [pk]\<rparr> = Inr h \<and>
                KeysetHash c = copy zero32 h"
    if "NewDASWithSeqInboxCaller K L V ctx0 cfg caller svc fs = (Inr (das st), fs')"
    using NewDASWithSeqInboxCaller_Inr [OF that] c by auto
  from c built
  show "DataHash c = copy zero32 (Keccak256 L message) \<and>
     (length (Keccak256 L message) = 32 \<longrightarrow> DataHash c = Keccak256 L message) \<and>
     Timeout c = timeout \<and> SignersMask c = 1 \<and> KeysetHash c = keysetHash (das st) \<and>
     (NewDASWithSeqInboxCaller K L V ctx0 cfg caller svc fs = (Inr (das st), fs') \<longrightarrow>
        (\<exists>pk h. PublicKeyFromPrivateKey L (privKey (das st)) = Inr pk \<and>
                Hash L \<lparr>AssumedHonest = 1, PubKeys = [pk]\<rparr> = Inr h \<and>
                KeysetHash c = copy zero32 h))"
    by simp
qed

theorem Store_certificate_fields_witness:
  "Store toy () [1, 2] 7 [] (toy_node (recording None None (Inr [])) None) =
     (Inr \<lparr>KeysetHash = copy zero32 [6], DataHash = Keccak256 toy [1, 2], Timeout = 7,
           SignersMask = 1, Sig = Some (5, payload toy [1, 2] 7)\<rparr>,
      (toy_node (recording None None (Inr [])) None)\<lparr>backend := [PutCall [1, 2] 7, SyncCall]\<rparr>) \<and>
   length (Keccak256 toy [1, 2]) = 32 \<and>
   NewDASWithSeqInboxCaller toy_keys toy toy_l1 () toy_config None (recording None None (Inr []))
       [(''keys'', 5)] =
     (Inr (das (toy_node (recording None None (Inr [])) None)), [(''keys'', 5)]) \<and>
   keysetHash (das (toy_node (recording None None (Inr [])) None)) = copy zero32 [6] \<and>
   PublicKeyFromPrivateKey toy 5 = Inr 6 \<and>
   Hash toy \<lparr>AssumedHonest = 1, PubKeys = [6]\<rparr> = Inr [6]"
  using Store_certificate_fields [where L = toy and ctx = "()" and message = "[1, 2]"
      and timeout = 7 and sig = "[]"
      and st = "toy_node (recording None None (Inr [])) None"
      and c = "\<lparr>KeysetHash = copy zero32 [6], DataHash = Keccak256 toy [1, 2], Timeout = 7,
                 SignersMask = 1, Sig = Some (5, payload toy [1, 2] 7)\<rparr>"
      and st' = "(toy_node (recording None None (Inr [])) None)
                   \<lparr>backend := [PutCall [1, 2] 7, SyncCall]\<rparr>"
      and K = toy_keys and V = toy_l1 and ?ctx0.0 = "()" and cfg = toy_config and caller = None
      and svc = "recording None None (Inr [])" and fs = "[(''keys'', 5)]"
      and fs' = "[(''keys'', 5)]"]
  by (simp add: Store_def NewDASWithSeqInboxCaller_def Let_def payload_def signable_def
        toy_node_def toy_def toy_keys_def toy_config_def recording_def)



subsection \<open>KeysetFromHash\<close>

text \<open>
  C5. Asked for its own keyset hash, \<open>KeysetFromHash\<close> returns the keyset bytes of the
  DAS and no error, and leaves the state as it is, for every backend and every state of
  it. For a DAS built by \<open>NewDASWithSeqInboxCaller\<close> these bytes are the serialisation
  of its one-member keyset.
\<close>

theorem KeysetFromHash_local:
  "KeysetFromHash ctx (keysetHash (das st)) st = (Inr (keysetBytes (das st)), st) \<and>
   (NewDASWithSeqInboxCaller K L V ctx0 cfg caller svc fs = (Inr (das st), fs') \<longrightarrow>
      (\<exists>pk. PublicKeyFromPrivateKey L (privKey (das st)) = Inr pk \<and>
            Serialize L \<lparr>AssumedHonest = 1, PubKeys = [pk]\<rparr> = Inr (keysetBytes (das st))))"
proof
  show "KeysetFromHash ctx (keysetHash (das st)) st = (Inr (keysetBytes (das st)), st)"
    by (simp add: KeysetFromHash_def)
  show "NewDASWithSeqInboxCaller K L V ctx0 cfg caller svc fs = (Inr (das st), fs') \<longrightarrow>
      (\<exists>pk. PublicKeyFromPrivateKey L (privKey (das st)) = Inr pk \<and>
            Serialize L \<lparr>AssumedHonest = 1, PubKeys = [pk]\<rparr> = Inr (keysetBytes (das st)))"
  proof
    assume "NewDASWithSeqInboxCaller K L V ctx0 cfg caller svc fs = (Inr (das st), fs')"
    from NewDASWithSeqInboxCaller_Inr [OF this]
    show "\<exists>pk. PublicKeyFromPrivateKey L (privKey (das st)) = Inr pk \<and>
            Serialize L \<lparr>AssumedHonest = 1, PubKeys = [pk]\<rparr> = Inr (keysetBytes (das st))"
      by auto
  qed
qed

theorem KeysetFromHash_local_witness:
  "NewDASWithSeqInboxCaller toy_keys toy toy_l1 () toy_config None
       (recording None None (Inl (External ''backend down''))) [(''keys'', 5)] =
     (Inr (das (toy_node (recording None None (Inl (External ''backend down''))) None)),
      [(''keys'', 5)]) \<and>
   KeysetFromHash () (copy zero32 [6])
       (toy_node (recording None None (Inl (External ''backend down''))) None) =
     (Inr [6], toy_node (recording None None (Inl (External ''backend down''))) None) \<and>
   backend (toy_node (recording None None (Inl (External ''backend down''))) None) = [] \<and>
   Serialize toy \<lparr>AssumedHonest = 1, PubKeys = [6]\<rparr> = Inr [6]"
  using KeysetFromHash_local [where ctx = "()"
      and st = "toy_node (recording None None (Inl (External ''backend down''))) None"
      and L = toy and K = toy_keys and V = toy_l1 and ?ctx0.0 = "()" and cfg = toy_config
      and caller = None and svc = "recording None None (Inl (External ''backend down''))"
      and fs = "[(''keys'', 5)]" and fs' = "[(''keys'', 5)]"]
  by (simp add: NewDASWithSeqInboxCaller_def Let_def
        toy_node_def toy_def toy_keys_def toy_config_def)

text \<open>
  C6. For any other hash, \<open>KeysetFromHash\<close> calls \<open>GetByHash\<close> on the backend: bytes
  are returned as they are, and any error is replaced by \<open>ErrDasKeysetNotFound\<close>.
\<close>

theorem KeysetFromHash_delegates:
  "ksHash \<noteq> keysetHash (das st) \<longrightarrow>
     (\<forall>contents s1.
        ss_GetByHash (storageService (das st)) ctx ksHash (backend st) = (Inr contents, s1) \<longrightarrow>
        KeysetFromHash ctx ksHash st = (Inr contents, st\<lparr>backend := s1\<rparr>)) \<and>
     (\<forall>err s1.
        ss_GetByHash (storageService (das st)) ctx ksHash (backend st) = (Inl err, s1) \<longrightarrow>
        KeysetFromHash ctx ksHash st = (Inl ErrDasKeysetNotFound, st\<lparr>backend := s1\<rparr>))"
  by (simp add: KeysetFromHash_def GetByHash_def)

theorem KeysetFromHash_delegates_witness:
  "[9] \<noteq> keysetHash (das (toy_node (recording None None (Inl (External ''backend down''))) None)) \<and>
   KeysetFromHash () [9] (toy_node (recording None None (Inl (External ''backend down''))) None) =
     (Inl (errorString ''no such keyset''),
      (toy_node (recording None None (Inl (External ''backend down''))) None)
        \<lparr>backend := [GetByHashCall [9]]\<rparr>) \<and>
   KeysetFromHash () [9] (toy_node (recording None None (Inl (NotExist ''9''))) None) =
     (Inl (errorString ''no such keyset''),
      (toy_node (recording None None (Inl (NotExist ''9''))) None)
        \<lparr>backend := [GetByHashCall [9]]\<rparr>) \<and>
   KeysetFromHash () [9] (toy_node (recording None None (Inr [4, 2])) None) =
     (Inr [4, 2],
      (toy_node (recording None None (Inr [4, 2])) None)\<lparr>backend := [GetByHashCall [9]]\<rparr>)"
  using KeysetFromHash_delegates [where ctx = "()" and ksHash = "[9]"
      and st = "toy_node (recording None None (Inl (External ''backend down''))) None"]
    KeysetFromHash_delegates [where ctx = "()" and ksHash = "[9]"
      and st = "toy_node (recording None None (Inl (NotExist ''9''))) None"]
    KeysetFromHash_delegates [where ctx = "()" and ksHash = "[9]"
      and st = "toy_node (recording None None (Inr [4, 2])) None"]
  by (simp add: toy_node_def recording_def ErrDasKeysetNotFound_def copy_def)

text \<open>
  C10. \<open>KeysetFromHash\<close> does not check what the backend returns: for a hash other
  than its own, bytes whose content hash differs from the requested hash are returned
  as a success when the backend yields them, and a backend that yields them exists.
\<close>

theorem KeysetFromHash_unverified:
  "ksHash \<noteq> keysetHash (das st) \<and> Keccak256 L b \<noteq> ksHash \<longrightarrow>
     (\<forall>s1. ss_GetByHash (storageService (das st)) ctx ksHash (backend st) = (Inr b, s1) \<longrightarrow>
        KeysetFromHash ctx ksHash st = (Inr b, st\<lparr>backend := s1\<rparr>)) \<and>
     (\<exists>svc. fst (KeysetFromHash ctx ksHash (st\<lparr>das := (das st)\<lparr>storageService := svc\<rparr>\<rparr>)) = Inr b)"
proof (intro impI conjI allI)
  fix s1
  assume "ksHash \<noteq> keysetHash (das st) \<and> Keccak256 L b \<noteq> ksHash"
    and "ss_GetByHash (storageService (das st)) ctx ksHash (backend st) = (Inr b, s1)"
  then show "KeysetFromHash ctx ksHash st = (Inr b, st\<lparr>backend := s1\<rparr>)"
    by (simp add: KeysetFromHash_def GetByHash_def)
next
  assume h: "ksHash \<noteq> keysetHash (das st) \<and> Keccak256 L b \<noteq> ksHash"
  let ?svc = "\<lparr>ss_GetByHash = (\<lambda>ctx h s. (Inr b, s)), ss_Put = (\<lambda>ctx m t s. (None, s)),
               ss_Sync = (\<lambda>ctx s. (None, s)), ss_HealthCheck = (\<lambda>ctx s. (None, s))\<rparr>"
  from h have "fst (KeysetFromHash ctx ksHash (st\<lparr>das := (das st)\<lparr>storageService := ?svc\<rparr>\<rparr>)) = Inr b"
    by (simp add: KeysetFromHash_def GetByHash_def)
  then show "\<exists>svc. fst (KeysetFromHash ctx ksHash (st\<lparr>das := (das st)\<lparr>storageService := svc\<rparr>\<rparr>)) = Inr b"
    by blast
qed

theorem KeysetFromHash_unverified_witness:
  "[9] \<noteq> keysetHash (das (toy_node (recording None None (Inr [4, 2])) None)) \<and>
   Keccak256 toy [4, 2] \<noteq> [9] \<and>
   KeysetFromHash () [9] (toy_node (recording None None (Inr [4, 2])) None) =
     (Inr [4, 2],
      (toy_node (recording None None (Inr [4, 2])) None)\<lparr>backend := [GetByHashCall [9]]\<rparr>)"
  using KeysetFromHash_unverified [where ctx = "()" and ksHash = "[9]" and L = toy
      and b = "[4, 2]" and st = "toy_node (recording None None (Inr [4, 2])) None"]
  by (simp add: toy_node_def recording_def toy_def copy_def)

subsection \<open>Immutability\<close>

text \<open>
  C9. No operation changes the struct: after \<open>Store\<close>, \<open>GetByHash\<close>,
  \<open>KeysetFromHash\<close>, \<open>CurrentKeysetBytes\<close> and \<open>HealthCheck\<close>, whether they succeed
  or fail, and after any sequence of them, the \<open>DAS\<close> (configuration, private key,
  keyset hash, keyset bytes, storage service and verifier) is the one they started
  from; every certificate issued along the sequence carries the same keyset hash.
\<close>

theorem DAS_immutable:
  "das (snd (Store L ctx message timeout sig st)) = das st \<and>
   das (snd (GetByHash ctx hash st)) = das st \<and>
   das (snd (KeysetFromHash ctx hash st)) = das st \<and>
   das (snd (CurrentKeysetBytes ctx st)) = das st \<and>
   das (snd (HealthCheck ctx st)) = das st \<and>
   das (snd (serve_all L requests st)) = das st \<and>
   (\<forall>c \<in> set (fst (serve_all L requests st)). KeysetHash c = keysetHash (das st))"
  by (simp add: Store_das GetByHash_das KeysetFromHash_das CurrentKeysetBytes_das
        HealthCheck_das serve_all_das serve_all_KeysetHash)

theorem DAS_immutable_witness:
  "map KeysetHash
     (fst (serve_all toy
        [StoreRequest () [1, 2] 7 [], KeysetFromHashRequest () [9], StoreRequest () [3] 8 []]
        (toy_node (recording None None (Inr [4, 2])) None))) =
     [copy zero32 [6], copy zero32 [6]] \<and>
   keysetHash (das (toy_node (recording None None (Inr [4, 2])) None)) = copy zero32 [6] \<and>
   backend (snd (serve_all toy
        [StoreRequest () [1, 2] 7 [], KeysetFromHashRequest () [9], StoreRequest () [3] 8 []]
        (toy_node (recording None None (Inr [4, 2])) None))) =
     [PutCall [1, 2] 7, SyncCall, GetByHashCall [9], PutCall [3] 8, SyncCall] \<and>
   das (snd (serve_all toy
        [StoreRequest () [1, 2] 7 [], KeysetFromHashRequest () [9], StoreRequest () [3] 8 []]
        (toy_node (recording None None (Inr [4, 2])) None))) =
     das (toy_node (recording None None (Inr [4, 2])) None)"
  using DAS_immutable [where L = toy and st = "toy_node (recording None None (Inr [4, 2])) None"
      and requests = "[StoreRequest () [1, 2] 7 [], KeysetFromHashRequest () [9],
                       StoreRequest () [3] 8 []]"]
  by (simp add: Store_def KeysetFromHash_def GetByHash_def Let_def
        toy_node_def toy_def recording_def copy_def)

subsection \<open>Construction\<close>

text \<open>
  C7. \<open>NewStorageServiceFromStorageConfig\<close> dispatches on the storage type: the empty
  string and \<open>"files"\<close> give the disk store, \<open>"db"\<close> the database store, \<open>"s3"\<close> the
  object store, \<open>"redis"\<close> the redis store over the object store, \<open>"bigCache"\<close> the
  memory cache over the redis store over the object store (each with the errors of its
  constructors), and any other name is an error, which \<open>NewDAS\<close> returns without
  building a DAS.
\<close>

theorem NewStorageServiceFromStorageConfig_dispatch:
  "(StorageType cfg = [] \<or> StorageType cfg = ''files'' \<longrightarrow>
      NewStorageServiceFromStorageConfig B ctx cfg =
        Inr (NewLocalDiskStorageService B (DataDir (LocalConfig cfg)))) \<and>
   (StorageType cfg = ''db'' \<longrightarrow>
      NewStorageServiceFromStorageConfig B ctx cfg =
        NewDBStorageService B ctx (DataDir (LocalConfig cfg)) (DiscardAfterTimeout cfg)) \<and>
   (StorageType cfg = ''s3'' \<longrightarrow>
      NewStorageServiceFromStorageConfig B ctx cfg =
        NewS3StorageService B (S3Config cfg) (DiscardAfterTimeout cfg)) \<and>
   (StorageType cfg = ''redis'' \<longrightarrow>
      NewStorageServiceFromStorageConfig B ctx cfg =
        (case NewS3StorageService B (S3Config cfg) (DiscardAfterTimeout cfg) of
           Inl err \<Rightarrow> Inl err
         | Inr s3 \<Rightarrow> NewRedisStorageService B (RedisConfig cfg) s3)) \<and>
   (StorageType cfg = ''bigCache'' \<longrightarrow>
      NewStorageServiceFromStorageConfig B ctx cfg =
        (case NewS3StorageService B (S3Config cfg) (DiscardAfterTimeout cfg) of
           Inl err \<Rightarrow> Inl err
         | Inr s3 \<Rightarrow>
            (case NewRedisStorageService B (RedisConfig cfg) s3 of
               Inl err \<Rightarrow> Inl err
             | Inr redis \<Rightarrow> NewBigCacheStorageService B (BigCacheConfig cfg) redis))) \<and>
   (StorageType cfg \<notin> {[], ''files'', ''db'', ''s3'', ''redis'', ''bigCache''} \<longrightarrow>
      NewStorageServiceFromStorageConfig B ctx cfg =
        Inl (errorString (''Storage service type not recognized: '' @ StorageType cfg)) \<and>
      (DASConfig dcfg = cfg \<longrightarrow>
         NewDAS B K L V ctx dcfg fs =
           (Inl (errorString (''Storage service type not recognized: '' @ StorageType cfg)),
            fs)))"
  by (simp add: NewStorageServiceFromStorageConfig_def NewDAS_def split: sum.splits)

theorem NewStorageServiceFromStorageConfig_dispatch_witness:
  "''ftp'' \<notin> {[], ''files'', ''db'', ''s3'', ''redis'', ''bigCache''} \<and>
   NewStorageServiceFromStorageConfig toy_backends () (toy_config\<lparr>StorageType := ''ftp''\<rparr>) =
     Inl (errorString ''Storage service type not recognized: ftp'') \<and>
   NewDAS toy_backends toy_keys toy toy_l1 ()
       \<lparr>DASConfig = toy_config\<lparr>StorageType := ''ftp''\<rparr>, L1NodeURL = ''none'',
        SequencerInboxAddress = []\<rparr> [(''keys'', 5)] =
     (Inl (errorString ''Storage service type not recognized: ftp''), [(''keys'', 5)]) \<and>
   NewStorageServiceFromStorageConfig toy_backends () (toy_config\<lparr>StorageType := ''files''\<rparr>) =
     Inr (NewLocalDiskStorageService toy_backends ''data'') \<and>
   NewStorageServiceFromStorageConfig toy_backends () (toy_config\<lparr>StorageType := ''bigCache''\<rparr>) =
     Inr (recording None None (Inr [3])
            \<lparr>ss_Sync := (\<lambda>ctx s. (None, s)), ss_HealthCheck := (\<lambda>ctx s. (None, s))\<rparr>)"
  using NewStorageServiceFromStorageConfig_dispatch [where B = toy_backends and ctx = "()"
      and cfg = "toy_config\<lparr>StorageType := ''ftp''\<rparr>" and K = toy_keys and L = toy
      and V = toy_l1 and fs = "[(''keys'', 5)]"
      and dcfg = "\<lparr>DASConfig = toy_config\<lparr>StorageType := ''ftp''\<rparr>, L1NodeURL = ''none'',
                   SequencerInboxAddress = []\<rparr>"]
    NewStorageServiceFromStorageConfig_dispatch [where B = toy_backends and ctx = "()"
      and cfg = "toy_config\<lparr>StorageType := ''files''\<rparr>"]
    NewStorageServiceFromStorageConfig_dispatch [where B = toy_backends and ctx = "()"
      and cfg = "toy_config\<lparr>StorageType := ''bigCache''\<rparr>"]
  by (simp add: toy_config_def toy_backends_def)

text \<open>
  C8. The signing key of \<open>NewDASWithSeqInboxCaller\<close>. A non-empty \<open>PrivKey\<close> is
  decoded: construction fails if decoding fails, and otherwise continues with the
  decoded key. With an empty \<open>PrivKey\<close> the key pair is read from \<open>KeyDir\<close>, and
  construction continues with the key read. If the read reports missing files and
  \<open>AllowGenerateKeys\<close> is set, \<open>GenerateAndStoreKeys\<close> runs: construction fails with
  its error, or continues with the generated key and the file system it has written.
  If the files are missing and generation is not allowed, or the read fails otherwise,
  construction fails and returns no DAS. Continuing with a key \<open>k\<close> returns a DAS
  only with \<open>privKey = k\<close>, and does return it when the public key, the
  serialisation and the hash of the keyset are obtained.
\<close>

theorem NewDASWithSeqInboxCaller_key:
  "(PrivKey cfg \<noteq> [] \<longrightarrow>
      (\<forall>e. DecodeBase64BLSPrivateKey K (bytes_of_string (PrivKey cfg)) = Inl e \<longrightarrow>
         NewDASWithSeqInboxCaller K L V ctx cfg caller svc fs =
           (Inl (wrapError '''priv-key' was invalid: '' e), fs)) \<and>
      (\<forall>k. DecodeBase64BLSPrivateKey K (bytes_of_string (PrivKey cfg)) = Inr k \<longrightarrow>
         NewDASWithSeqInboxCaller K L V ctx cfg caller svc fs =
           (keyset_of_key L V cfg caller svc k, fs))) \<and>
   (PrivKey cfg = [] \<longrightarrow>
      (\<forall>pub k. ReadKeysFromFile K (KeyDir cfg) fs = Inr (pub, k) \<longrightarrow>
         NewDASWithSeqInboxCaller K L V ctx cfg caller svc fs =
           (keyset_of_key L V cfg caller svc k, fs)) \<and>
      (\<forall>e. ReadKeysFromFile K (KeyDir cfg) fs = Inl e \<and> IsNotExist e \<and>
            AllowGenerateKeys cfg \<longrightarrow>
         (\<forall>e' fs1. GenerateAndStoreKeys K (KeyDir cfg) fs = (Inl e', fs1) \<longrightarrow>
            NewDASWithSeqInboxCaller K L V ctx cfg caller svc fs = (Inl e', fs1)) \<and>
         (\<forall>pub k fs1. GenerateAndStoreKeys K (KeyDir cfg) fs = (Inr (pub, k), fs1) \<longrightarrow>
            NewDASWithSeqInboxCaller K L V ctx cfg caller svc fs =
              (keyset_of_key L V cfg caller svc k, fs1))) \<and>
      (\<forall>e. ReadKeysFromFile K (KeyDir cfg) fs = Inl e \<and> IsNotExist e \<and>
            \<not> AllowGenerateKeys cfg \<longrightarrow>
         NewDASWithSeqInboxCaller K L V ctx cfg caller svc fs =
           (Inl (errorString (''Required BLS keypair did not exist at '' @ KeyDir cfg)), fs)) \<and>
      (\<forall>e. ReadKeysFromFile K (KeyDir cfg) fs = Inl e \<and> \<not> IsNotExist e \<longrightarrow>
         NewDASWithSeqInboxCaller K L V ctx cfg caller svc fs = (Inl e, fs))) \<and>
   (\<forall>k d. keyset_of_key L V cfg caller svc k = Inr d \<longrightarrow> privKey d = k) \<and>
   (\<forall>k pk ks h. PublicKeyFromPrivateKey L k = Inr pk \<and>
      Serialize L \<lparr>AssumedHonest = 1, PubKeys = [pk]\<rparr> = Inr ks \<and>
      Hash L \<lparr>AssumedHonest = 1, PubKeys = [pk]\<rparr> = Inr h \<longrightarrow>
      keyset_of_key L V cfg caller svc k =
        Inr \<lparr>config = cfg, privKey = k, keysetHash = copy zero32 h, keysetBytes = ks,
             storageService = svc,
             bpVerifier = map_option (NewBatchPosterVerifier V) caller\<rparr>)"
proof (intro conjI)
  show "PrivKey cfg \<noteq> [] \<longrightarrow>
      (\<forall>e. DecodeBase64BLSPrivateKey K (bytes_of_string (PrivKey cfg)) = Inl e \<longrightarrow>
         NewDASWithSeqInboxCaller K L V ctx cfg caller svc fs =
           (Inl (wrapError '''priv-key' was invalid: '' e), fs)) \<and>
      (\<forall>k. DecodeBase64BLSPrivateKey K (bytes_of_string (PrivKey cfg)) = Inr k \<longrightarrow>
         NewDASWithSeqInboxCaller K L V ctx cfg caller svc fs =
           (keyset_of_key L V cfg caller svc k, fs))"
    by (auto simp: NewDASWithSeqInboxCaller_def keyset_of_key_def Let_def
             split: sum.splits option.splits)
  show "PrivKey cfg = [] \<longrightarrow>
      (\<forall>pub k. ReadKeysFromFile K (KeyDir cfg) fs = Inr (pub, k) \<longrightarrow>
         NewDASWithSeqInboxCaller K L V ctx cfg caller svc fs =
           (keyset_of_key L V cfg caller svc k, fs)) \<and>
      (\<forall>e. ReadKeysFromFile K (KeyDir cfg) fs = Inl e \<and> IsNotExist e \<and>
            AllowGenerateKeys cfg \<longrightarrow>
         (\<forall>e' fs1. GenerateAndStoreKeys K (KeyDir cfg) fs = (Inl e', fs1) \<longrightarrow>
            NewDASWithSeqInboxCaller K L V ctx cfg caller svc fs = (Inl e', fs1)) \<and>
         (\<forall>pub k fs1. GenerateAndStoreKeys K (KeyDir cfg) fs = (Inr (pub, k), fs1) \<longrightarrow>
            NewDASWithSeqInboxCaller K L V ctx cfg caller svc fs =
              (keyset_of_key L V cfg caller svc k, fs1))) \<and>
      (\<forall>e. ReadKeysFromFile K (KeyDir cfg) fs = Inl e \<and> IsNotExist e \<and>
            \<not> AllowGenerateKeys cfg \<longrightarrow>
         NewDASWithSeqInboxCaller K L V ctx cfg caller svc fs =
           (Inl (errorString (''Required BLS keypair did not exist at '' @ KeyDir cfg)), fs)) \<and>
      (\<forall>e. ReadKeysFromFile K (KeyDir cfg) fs = Inl e \<and> \<not> IsNotExist e \<longrightarrow>
         NewDASWithSeqInboxCaller K L V ctx cfg caller svc fs = (Inl e, fs))"
    by (auto simp: NewDASWithSeqInboxCaller_def keyset_of_key_def Let_def
             split: sum.splits option.splits)
  show "\<forall>k d. keyset_of_key L V cfg caller svc k = Inr d \<longrightarrow> privKey d = k"
    by (auto simp: keyset_of_key_def split: sum.splits)
  show "\<forall>k pk ks h. PublicKeyFromPrivateKey L k = Inr pk \<and>
      Serialize L \<lparr>AssumedHonest = 1, PubKeys = [pk]\<rparr> = Inr ks \<and>
      Hash L \<lparr>AssumedHonest = 1, PubKeys = [pk]\<rparr> = Inr h \<longrightarrow>
      keyset_of_key L V cfg caller svc k =
        Inr \<lparr>config = cfg, privKey = k, keysetHash = copy zero32 h, keysetBytes = ks,
             storageService = svc,
             bpVerifier = map_option (NewBatchPosterVerifier V) caller\<rparr>"
    by (simp add: keyset_of_key_def)
qed

theorem NewDASWithSeqInboxCaller_key_witness:
  "DecodeBase64BLSPrivateKey toy_keys (bytes_of_string ''A'') = Inr 65 \<and>
   NewDASWithSeqInboxCaller toy_keys toy toy_l1 () (toy_config\<lparr>PrivKey := ''A''\<rparr>) None
       (recording None None (Inr [])) [] =
     (Inr \<lparr>config = toy_config\<lparr>PrivKey := ''A''\<rparr>, privKey = 65,
           keysetHash = copy zero32 [66], keysetBytes = [66],
           storageService = recording None None (Inr []), bpVerifier = None\<rparr>, []) \<and>
   NewDASWithSeqInboxCaller toy_keys toy toy_l1 () (toy_config\<lparr>PrivKey := ''AB''\<rparr>) None
       (recording None None (Inr [])) [] =
     (Inl (wrapError '''priv-key' was invalid: '' (External ''illegal base64 data'')), []) \<and>
   ReadKeysFromFile toy_keys (KeyDir toy_config) [(''keys'', 9)] = Inr (10, 9) \<and>
   NewDASWithSeqInboxCaller toy_keys toy toy_l1 () toy_config None
       (recording None None (Inr [])) [(''keys'', 9)] =
     (Inr \<lparr>config = toy_config, privKey = 9, keysetHash = copy zero32 [10],
           keysetBytes = [10], storageService = recording None None (Inr []),
           bpVerifier = None\<rparr>, [(''keys'', 9)]) \<and>
   ReadKeysFromFile toy_keys (KeyDir toy_config) [] = Inl (NotExist ''keys'') \<and>
   IsNotExist (NotExist ''keys'') \<and> AllowGenerateKeys toy_config \<and>
   GenerateAndStoreKeys toy_keys (KeyDir toy_config) [] = (Inr (6, 5), [(''keys'', 5)]) \<and>
   NewDASWithSeqInboxCaller toy_keys toy toy_l1 () toy_config None
       (recording None None (Inr [])) [] =
     (Inr \<lparr>config = toy_config, privKey = 5, keysetHash = copy zero32 [6],
           keysetBytes = [6], storageService = recording None None (Inr []),
           bpVerifier = None\<rparr>, [(''keys'', 5)]) \<and>
   NewDASWithSeqInboxCaller toy_keys toy toy_l1 () (toy_config\<lparr>AllowGenerateKeys := False\<rparr>) None
       (recording None None (Inr [])) [] =
     (Inl (errorString ''Required BLS keypair did not exist at keys''), []) \<and>
   NewDASWithSeqInboxCaller toy_keys toy toy_l1 () (toy_config\<lparr>KeyDir := ''locked''\<rparr>) None
       (recording None None (Inr [])) [] =
     (Inl (External ''permission denied''), [])"
proof -
  note inline = NewDASWithSeqInboxCaller_key [where K = toy_keys and L = toy and V = toy_l1
      and ctx = "()" and cfg = "toy_config\<lparr>PrivKey := ''A''\<rparr>" and caller = None
      and svc = "recording None None (Inr [])" and fs = "[]"]
  note invalid = NewDASWithSeqInboxCaller_key [where K = toy_keys and L = toy and V = toy_l1
      and ctx = "()" and cfg = "toy_config\<lparr>PrivKey := ''AB''\<rparr>" and caller = None
      and svc = "recording None None (Inr [])" and fs = "[]"]
  note stored = NewDASWithSeqInboxCaller_key [where K = toy_keys and L = toy and V = toy_l1
      and ctx = "()" and cfg = toy_config and caller = None
      and svc = "recording None None (Inr [])" and fs = "[(''keys'', 9)]"]
  note generated = NewDASWithSeqInboxCaller_key [where K = toy_keys and L = toy and V = toy_l1
      and ctx = "()" and cfg = toy_config and caller = None
      and svc = "recording None None (Inr [])" and fs = "[]"]
  note refused = NewDASWithSeqInboxCaller_key [where K = toy_keys and L = toy and V = toy_l1
      and ctx = "()" and cfg = "toy_config\<lparr>AllowGenerateKeys := False\<rparr>" and caller = None
      and svc = "recording None None (Inr [])" and fs = "[]"]
  note locked = NewDASWithSeqInboxCaller_key [where K = toy_keys and L = toy and V = toy_l1
      and ctx = "()" and cfg = "toy_config\<lparr>KeyDir := ''locked''\<rparr>" and caller = None
      and svc = "recording None None (Inr [])" and fs = "[]"]
  have dec: "DecodeBase64BLSPrivateKey toy_keys (bytes_of_string ''A'') = Inr 65"
    by (simp add: toy_keys_def bytes_of_string_def)
  have k65: "keyset_of_key toy toy_l1 (toy_config\<lparr>PrivKey := ''A''\<rparr>) None
               (recording None None (Inr [])) 65 =
             Inr \<lparr>config = toy_config\<lparr>PrivKey := ''A''\<rparr>, privKey = 65,
                  keysetHash = copy zero32 [66], keysetBytes = [66],
                  storageService = recording None None (Inr []), bpVerifier = None\<rparr>"
    using inline by (simp add: toy_def)
  have "NewDASWithSeqInboxCaller toy_keys toy toy_l1 () (toy_config\<lparr>PrivKey := ''A''\<rparr>) None
       (recording None None (Inr [])) [] =
     (Inr \<lparr>config = toy_config\<lparr>PrivKey := ''A''\<rparr>, privKey = 65,
           keysetHash = copy zero32 [66], keysetBytes = [66],
           storageService = recording None None (Inr []), bpVerifier = None\<rparr>, [])"
    using inline dec k65 by (simp add: toy_config_def)
  moreover have "NewDASWithSeqInboxCaller toy_keys toy toy_l1 () (toy_config\<lparr>PrivKey := ''AB''\<rparr>) None
       (recording None None (Inr [])) [] =
     (Inl (wrapError '''priv-key' was invalid: '' (External ''illegal base64 data'')), [])"
    using invalid by (simp add: toy_config_def toy_keys_def bytes_of_string_def)
  moreover have rd: "ReadKeysFromFile toy_keys (KeyDir toy_config) [(''keys'', 9)] = Inr (10, 9)"
    by (simp add: toy_keys_def toy_config_def)
  moreover have "NewDASWithSeqInboxCaller toy_keys toy toy_l1 () toy_config None
       (recording None None (Inr [])) [(''keys'', 9)] =
     (Inr \<lparr>config = toy_config, privKey = 9, keysetHash = copy zero32 [10],
           keysetBytes = [10], storageService = recording None None (Inr []),
           bpVerifier = None\<rparr>, [(''keys'', 9)])"
  proof -
    have "keyset_of_key toy toy_l1 toy_config None (recording None None (Inr [])) 9 =
             Inr \<lparr>config = toy_config, privKey = 9, keysetHash = copy zero32 [10],
                  keysetBytes = [10], storageService = recording None None (Inr []),
                  bpVerifier = None\<rparr>"
      using stored by (simp add: toy_def)
    with stored rd show ?thesis by (simp add: toy_config_def)
  qed
  moreover have nx: "ReadKeysFromFile toy_keys (KeyDir toy_config) [] = Inl (NotExist ''keys'')"
    by (simp add: toy_keys_def toy_config_def)
  moreover have gen: "GenerateAndStoreKeys toy_keys (KeyDir toy_config) [] =
      (Inr (6, 5), [(''keys'', 5)])"
    by (simp add: toy_keys_def toy_config_def)
  moreover have "NewDASWithSeqInboxCaller toy_keys toy toy_l1 () toy_config None
       (recording None None (Inr [])) [] =
     (Inr \<lparr>config = toy_config, privKey = 5, keysetHash = copy zero32 [6],
           keysetBytes = [6], storageService = recording None None (Inr []),
           bpVerifier = None\<rparr>, [(''keys'', 5)])"
  proof -
    have "keyset_of_key toy toy_l1 toy_config None (recording None None (Inr [])) 5 =
             Inr \<lparr>config = toy_config, privKey = 5, keysetHash = copy zero32 [6],
                  keysetBytes = [6], storageService = recording None None (Inr []),
                  bpVerifier = None\<rparr>"
      using generated by (simp add: toy_def)
    with generated nx gen show ?thesis by (simp add: toy_config_def)
  qed
  moreover have "NewDASWithSeqInboxCaller toy_keys toy toy_l1 ()
       (toy_config\<lparr>AllowGenerateKeys := False\<rparr>) None (recording None None (Inr [])) [] =
     (Inl (errorString ''Required BLS keypair did not exist at keys''), [])"
    using refused by (simp add: toy_config_def toy_keys_def)
  moreover have "NewDASWithSeqInboxCaller toy_keys toy toy_l1 () (toy_config\<lparr>KeyDir := ''locked''\<rparr>) None
       (recording None None (Inr [])) [] =
     (Inl (External ''permission denied''), [])"
    using locked by (simp add: toy_config_def toy_keys_def)
  ultimately show ?thesis
    using dec by (simp add: toy_config_def)
qed

end
